theory Spec2Isabelle
  imports Main
begin

section \<open>Values, documents and the store\<close>

text \<open>
  Dates are milliseconds since the epoch (what \<^verbatim>\<open>getTime()\<close> returns and what the
  comparison operators of JavaScript compare); \<^verbatim>\<open>_id\<close> values are natural numbers.
\<close>

type_synonym date = int
type_synonym oid = nat

datatype jsval =
    JStr string
  | JNum int
  | JDate date
  | JObj "(string \<times> jsval) list"

text \<open>An object literal: its fields in the order written, with their values.\<close>

type_synonym doc = "(string \<times> jsval) list"

text \<open>
  The stored documents, with the fields the handlers read or write. A field the code
  guards with a truthiness test before using it (\<^verbatim>\<open>tokenDoc.expiresAt &&\<close>,
  \<^verbatim>\<open>tokenDoc.meta && tokenDoc.meta.nonce\<close>, \<^verbatim>\<open>existing.windowEndsAt &&\<close>) is optional.
\<close>

record voter =
  v_voterId :: string
  v_passwordHash :: string
  v_status :: string
  v_hasVoted :: bool
  v_updatedAt :: date

record votingToken =
  t_id :: oid
  t_tokenId :: string
  t_electionId :: string
  t_spent :: bool
  t_expiresAt :: "date option"
  t_createdAt :: date
  t_updatedAt :: date
  t_version :: int
  t_nonce :: "string option"

record candidate =
  c_electionId :: string
  c_candidateId :: string
  c_status :: string

record election =
  e_electionId :: string
  e_status :: string


record db =
  voters :: "voter list"
  votingTokens :: "votingToken list"
  candidates :: "candidate list"
  votes :: "doc list"
  elections :: "election list"

subsection \<open>Collection operations\<close>

text \<open>
  A collection is the list of its documents in natural order. \<^verbatim>\<open>findOne\<close> returns the
  first document matching the filter, \<^verbatim>\<open>updateOne\<close> changes the first matching document
  and reports \<^verbatim>\<open>matchedCount\<close>, \<^verbatim>\<open>insertOne\<close> appends, \<^verbatim>\<open>deleteOne\<close> removes the
  first matching document, and \<^verbatim>\<open>updateOne\<close> with \<^verbatim>\<open>upsert: true\<close> inserts the given
  document when nothing matches.
\<close>

definition findOne :: "('a \<Rightarrow> bool) \<Rightarrow> 'a list \<Rightarrow> 'a option" where
  "findOne P xs = List.find P xs"

fun updateOne :: "('a \<Rightarrow> bool) \<Rightarrow> ('a \<Rightarrow> 'a) \<Rightarrow> 'a list \<Rightarrow> nat \<times> 'a list" where
  "updateOne P f [] = (0, [])"
| "updateOne P f (x # xs) =
     (if P x then (1, f x # xs)
      else (fst (updateOne P f xs), x # snd (updateOne P f xs)))"

definition insertOne :: "'a \<Rightarrow> 'a list \<Rightarrow> 'a list" where
  "insertOne d xs = xs @ [d]"



subsection \<open>Transactions\<close>

datatype code =
    BAD_TOKEN
  | VALIDATION_ERROR
  | ELECTION_NOT_OPEN
  | VOTER_NOT_FOUND
  | VOTER_INACTIVE
  | ALREADY_VOTED
  | INVALID_VOTE_TOKEN
  | TOKEN_ALREADY_USED
  | TOKEN_EXPIRED
  | TOKEN_NONCE_MISMATCH
  | INVALID_CANDIDATE
  | OTP_RATE_LIMITED
  | ACCOUNT_LOCKED
  | INVALID_CREDENTIALS

text \<open>
  An error thrown inside the transaction carries \<^verbatim>\<open>status\<close>, \<^verbatim>\<open>code\<close> and
  \<^verbatim>\<open>details\<close> (the human-readable message, a constant per code, is left out).
\<close>

datatype error = Error (err_status: nat) (err_code: code) (err_details: doc)

text \<open>
  \<^verbatim>\<open>withTransaction(fn)\<close> of \<^verbatim>\<open>lib/mongo.js\<close>: the callback runs against the store
  and returns either a thrown error or a result, together with the store as its writes left
  it. A throw aborts the transaction, so the store is the one before the call; otherwise
  the writes are committed. The client is taken to be connected.
\<close>

definition withTransaction :: "(db \<Rightarrow> (error + 'r) \<times> db) \<Rightarrow> db \<Rightarrow> (error + 'r) \<times> db" where
  "withTransaction fn d =
     (case fn d of
        (Inl e, _) \<Rightarrow> (Inl e, d)
      | (Inr r, d') \<Rightarrow> (Inr r, d'))"

section \<open>Request data\<close>

text \<open>
  \<^verbatim>\<open>req.user\<close> (the decoded credential) and the request bodies. A field that is absent or
  not a string is \<open>None\<close>; a supplied \<^verbatim>\<open>nonce\<close> is kept as the string \<^verbatim>\<open>String(nonce)\<close>.
\<close>

record user =
  u_voterId :: "string option"
  u_sub :: "string option"

record issue_body =
  ib_electionId :: "string option"

record submit_body =
  sb_tokenId :: "string option"
  sb_candidateId :: "string option"
  sb_nonce :: "string option"
  sb_electionId :: "string option"

text \<open>Truthiness of a string-or-absent value, and the operator \<^verbatim>\<open>||\<close> on such values.\<close>

fun truthy :: "string option \<Rightarrow> bool" where
  "truthy None = False"
| "truthy (Some s) = (s \<noteq> [])"

definition js_or :: "string option \<Rightarrow> string option \<Rightarrow> string option" where
  "js_or a b = (if truthy a then a else b)"

text \<open>
  \<^verbatim>\<open>String.prototype.trim\<close> on strings of ASCII characters: space, tab, line feed,
  vertical tab, form feed and carriage return are removed at both ends.
\<close>

definition is_space :: "char \<Rightarrow> bool" where
  "is_space c = (c \<in> set [CHR '' '', CHR 0x09, CHR 0x0A, CHR 0x0B, CHR 0x0C, CHR 0x0D])"

definition trim :: "string \<Rightarrow> string" where
  "trim s = rev (dropWhile is_space (rev (dropWhile is_space s)))"

text \<open>
  \<^verbatim>\<open>(req.body && req.body.electionId) || config.electionId || 'default'\<close>
\<close>

definition resolveElectionId :: "string option \<Rightarrow> string option \<Rightarrow> string" where
  "resolveElectionId bodyElectionId configElectionId =
     (case js_or (js_or bodyElectionId configElectionId) (Some ''default'') of
        Some s \<Rightarrow> s
      | None \<Rightarrow> ''default'')"

text \<open>What a handler sends back.\<close>

datatype response =
    Failure nat code doc
  | TokenIssued string string date
  | Accepted string string
  | OtpSent
  | LoggedIn string string bool string
  | Unhandled error

section \<open>Election gate (services/voteService.js)\<close>

definition isElectionOpen :: "string \<Rightarrow> db \<Rightarrow> bool" where
  "isElectionOpen electionId d =
     (case findOne (\<lambda>e. e_electionId e = electionId) (elections d) of
        None \<Rightarrow> True
      | Some doc \<Rightarrow> e_status doc = ''open'')"

section \<open>Token issuance (controllers/voteController.js, issueToken)\<close>

definition TOKEN_TTL_MS :: int where
  "TOKEN_TTL_MS = 5 * 60 * 1000"

text \<open>
  The handler reads the clock and draws the document's \<^verbatim>\<open>_id\<close>, the token identifier and
  the nonce; the model takes them as arguments \<open>now\<close>, \<open>newId\<close>, \<open>tokenId\<close> and
  \<open>nonce\<close>.
\<close>

definition issueToken ::
  "string option \<Rightarrow> user \<Rightarrow> issue_body \<Rightarrow> date \<Rightarrow> oid \<Rightarrow> string \<Rightarrow> string \<Rightarrow> db \<Rightarrow> response \<times> db"
where
  "issueToken configElectionId usr body now newId tokenId nonce d =
     (case js_or (u_voterId usr) (u_sub usr) of
        None \<Rightarrow> (Failure 400 BAD_TOKEN [], d)
      | Some voterId \<Rightarrow>
          if voterId = [] then (Failure 400 BAD_TOKEN [], d)
          else
            let electionId = resolveElectionId (ib_electionId body) configElectionId in
            if \<not> isElectionOpen electionId d
            then (Failure 409 ELECTION_NOT_OPEN [(''electionId'', JStr electionId)], d)
            else
              (case findOne (\<lambda>v. v_voterId v = voterId) (voters d) of
                 None \<Rightarrow> (Failure 404 VOTER_NOT_FOUND [], d)
               | Some voter \<Rightarrow>
                   if v_status voter \<noteq> ''active''
                   then (Failure 403 VOTER_INACTIVE [(''status'', JStr (v_status voter))], d)
                   else if v_hasVoted voter then (Failure 409 ALREADY_VOTED [], d)
                   else
                     let expiresAt = now + TOKEN_TTL_MS;
                         tokenDoc = \<lparr> t_id = newId, t_tokenId = tokenId,
                                      t_electionId = electionId, t_spent = False,
                                      t_expiresAt = Some expiresAt, t_createdAt = now,
                                      t_updatedAt = now, t_version = 1,
                                      t_nonce = Some nonce \<rparr>
                     in (TokenIssued tokenId nonce expiresAt,
                         d\<lparr>votingTokens := insertOne tokenDoc (votingTokens d)\<rparr>)))"

section \<open>Vote submission (controllers/voteController.js, submitVote)\<close>

record submit_result =
  r_electionId :: string
  r_candidateId :: string

text \<open>The document given to \<^verbatim>\<open>votes.insertOne\<close>.\<close>

definition voteDoc :: "string \<Rightarrow> string \<Rightarrow> date \<Rightarrow> string \<Rightarrow> doc" where
  "voteDoc electionId candidateId now serverSig =
     [(''electionId'', JStr electionId),
      (''candidateId'', JStr candidateId),
      (''createdAt'', JDate now),
      (''serverSig'', JStr serverSig),
      (''version'', JNum 1),
      (''meta'', JObj [])]"

text \<open>
  The nonce test: a supplied nonce must equal the stored one, and the stored one must be
  present and non-empty.
\<close>

definition nonceMismatch :: "string option \<Rightarrow> votingToken \<Rightarrow> bool" where
  "nonceMismatch nonce tokenDoc =
     (case nonce of
        None \<Rightarrow> False
      | Some n \<Rightarrow> \<not> truthy (t_nonce tokenDoc) \<or> Some n \<noteq> t_nonce tokenDoc)"

definition tokenExpired :: "votingToken \<Rightarrow> date \<Rightarrow> bool" where
  "tokenExpired tokenDoc now =
     (case t_expiresAt tokenDoc of None \<Rightarrow> False | Some e \<Rightarrow> e \<le> now)"

text \<open>
  Steps 4 to 6 of the transaction callback: the conditional token update, the vote
  insertion and the voter update. \<open>tokenDoc\<close> is the token as step 2 read it. The store
  returned with an error is the store at the moment of the throw.
\<close>

definition submitVote_write ::
  "string \<Rightarrow> votingToken \<Rightarrow> string \<Rightarrow> string \<Rightarrow> date \<Rightarrow> string \<Rightarrow> db
     \<Rightarrow> (error + submit_result) \<times> db"
where
  "submitVote_write voterId tokenDoc electionId trimmedCandidateId now serverSig d =
     (let updateTokenResult =
            updateOne (\<lambda>t. t_id t = t_id tokenDoc \<and> t_spent t = False)
                      (\<lambda>t. t\<lparr>t_spent := True, t_updatedAt := now\<rparr>) (votingTokens d);
          d1 = d\<lparr>votingTokens := snd updateTokenResult\<rparr>
      in
      if fst updateTokenResult = 0 then (Inl (Error 409 TOKEN_ALREADY_USED []), d1)
      else
        let d2 = d1\<lparr>votes := insertOne (voteDoc electionId trimmedCandidateId now serverSig)
                                       (votes d1)\<rparr>;
            updateVoterResult =
              updateOne (\<lambda>v. v_voterId v = voterId)
                        (\<lambda>v. v\<lparr>v_hasVoted := True, v_updatedAt := now\<rparr>) (voters d2);
            d3 = d2\<lparr>voters := snd updateVoterResult\<rparr>
        in
        if fst updateVoterResult = 0 then (Inl (Error 404 VOTER_NOT_FOUND []), d3)
        else (Inr \<lparr> r_electionId = electionId, r_candidateId = trimmedCandidateId \<rparr>, d3))"

text \<open>The transaction callback: steps 1 to 3 (the validations), then the writes.\<close>

definition submitVote_txn ::
  "string \<Rightarrow> string \<Rightarrow> string \<Rightarrow> string \<Rightarrow> string option \<Rightarrow> date \<Rightarrow> string \<Rightarrow> db
     \<Rightarrow> (error + submit_result) \<times> db"
where
  "submitVote_txn voterId trimmedTokenId electionId trimmedCandidateId nonce now serverSig d =
     (case findOne (\<lambda>v. v_voterId v = voterId) (voters d) of
        None \<Rightarrow> (Inl (Error 404 VOTER_NOT_FOUND []), d)
      | Some voter \<Rightarrow>
          if v_status voter \<noteq> ''active''
          then (Inl (Error 403 VOTER_INACTIVE [(''status'', JStr (v_status voter))]), d)
          else if v_hasVoted voter then (Inl (Error 409 ALREADY_VOTED []), d)
          else
            (case findOne (\<lambda>t. t_tokenId t = trimmedTokenId \<and> t_electionId t = electionId)
                          (votingTokens d) of
               None \<Rightarrow> (Inl (Error 400 INVALID_VOTE_TOKEN []), d)
             | Some tokenDoc \<Rightarrow>
                 if t_spent tokenDoc then (Inl (Error 409 TOKEN_ALREADY_USED []), d)
                 else if tokenExpired tokenDoc now then (Inl (Error 410 TOKEN_EXPIRED []), d)
                 else if nonceMismatch nonce tokenDoc
                 then (Inl (Error 400 TOKEN_NONCE_MISMATCH []), d)
                 else
                   (case findOne (\<lambda>c. c_electionId c = electionId
                                       \<and> c_candidateId c = trimmedCandidateId
                                       \<and> c_status c = ''active'') (candidates d) of
                      None \<Rightarrow> (Inl (Error 400 INVALID_CANDIDATE []), d)
                    | Some candidate \<Rightarrow>
                        submitVote_write voterId tokenDoc electionId trimmedCandidateId
                                         now serverSig d)))"

text \<open>
  \<open>submit\<close> is the callback run by \<^verbatim>\<open>withTransaction\<close>: the operation
  \<^verbatim>\<open>submit(voterContext, tokenId, electionId, candidateId, nonce?)\<close>.
\<close>

definition submit ::
  "string \<Rightarrow> string \<Rightarrow> string \<Rightarrow> string \<Rightarrow> string option \<Rightarrow> date \<Rightarrow> string \<Rightarrow> db
     \<Rightarrow> (error + submit_result) \<times> db"
where
  "submit voterId tokenId electionId candidateId nonce now serverSig d =
     withTransaction
       (submitVote_txn voterId tokenId electionId candidateId nonce now serverSig) d"

text \<open>
  The handler: request checks, the transaction, and the mapping of its outcome to a
  response. A thrown error with a status and a code becomes the response of that status
  and code.
\<close>

definition submitVote ::
  "string option \<Rightarrow> user \<Rightarrow> submit_body \<Rightarrow> date \<Rightarrow> string \<Rightarrow> db \<Rightarrow> response \<times> db"
where
  "submitVote configElectionId usr body now serverSig d =
     (case js_or (u_voterId usr) (u_sub usr) of
        None \<Rightarrow> (Failure 400 BAD_TOKEN [], d)
      | Some voterId \<Rightarrow>
          if voterId = [] then (Failure 400 BAD_TOKEN [], d)
          else
            let electionId = resolveElectionId (sb_electionId body) configElectionId in
            (case (sb_tokenId body, sb_candidateId body) of
               (Some tokenId, Some candidateId) \<Rightarrow>
                 if trim tokenId = [] \<or> trim candidateId = []
                 then (Failure 400 VALIDATION_ERROR [], d)
                 else
                   (case submit voterId (trim tokenId) electionId (trim candidateId)
                              (sb_nonce body) now serverSig d of
                      (Inr result, d') \<Rightarrow>
                        (Accepted (r_electionId result) (r_candidateId result), d')
                    | (Inl err, d') \<Rightarrow>
                        (if err_status err \<noteq> 0
                         then Failure (err_status err) (err_code err) (err_details err)
                         else Unhandled err, d'))
             | _ \<Rightarrow> (Failure 400 VALIDATION_ERROR [], d)))"

section \<open>Attempt counters (controllers/authController.js)\<close>

















subsection \<open>Sequences of attempts\<close>






section \<open>The order of the validations\<close>

text \<open>
  The validations of \<open>submit\<close> in the order the specification lists them, each with
  the failure kind it reports: the first component says whether the check fails. A check on
  a record that an earlier check found missing does not fail by itself. \<open>firstFailing\<close>
  yields the kind of the first failing check.
\<close>

definition submitChecks ::
  "string \<Rightarrow> string \<Rightarrow> string \<Rightarrow> string \<Rightarrow> string option \<Rightarrow> date \<Rightarrow> db \<Rightarrow> (bool \<times> code) list"
where
  "submitChecks voterId tokenId electionId candidateId nonce now d =
     (let voter = findOne (\<lambda>v. v_voterId v = voterId) (voters d);
          token = findOne (\<lambda>t. t_tokenId t = tokenId \<and> t_electionId t = electionId)
                          (votingTokens d);
          candidate = findOne (\<lambda>c. c_electionId c = electionId \<and> c_candidateId c = candidateId
                                        \<and> c_status c = ''active'') (candidates d)
      in [(voter = None, VOTER_NOT_FOUND),
          ((case voter of None \<Rightarrow> False | Some v \<Rightarrow> v_status v \<noteq> ''active''), VOTER_INACTIVE),
          ((case voter of None \<Rightarrow> False | Some v \<Rightarrow> v_hasVoted v), ALREADY_VOTED),
          (token = None, INVALID_VOTE_TOKEN),
          ((case token of None \<Rightarrow> False | Some t \<Rightarrow> t_spent t), TOKEN_ALREADY_USED),
          ((case token of None \<Rightarrow> False | Some t \<Rightarrow> tokenExpired t now), TOKEN_EXPIRED),
          ((case token of None \<Rightarrow> False | Some t \<Rightarrow> nonceMismatch nonce t),
           TOKEN_NONCE_MISMATCH),
          (candidate = None, INVALID_CANDIDATE)])"

fun firstFailing :: "(bool \<times> code) list \<Rightarrow> code option" where
  "firstFailing [] = None"
| "firstFailing ((fails, c) # rest) = (if fails then Some c else firstFailing rest)"

text \<open>The preconditions of \<open>issue\<close>, in the order the specification lists them.\<close>

definition issueChecks :: "string \<Rightarrow> string \<Rightarrow> db \<Rightarrow> (bool \<times> code) list" where
  "issueChecks voterId electionId d =
     (let voter = findOne (\<lambda>v. v_voterId v = voterId) (voters d)
      in [(\<not> isElectionOpen electionId d, ELECTION_NOT_OPEN),
          (voter = None, VOTER_NOT_FOUND),
          ((case voter of None \<Rightarrow> False | Some v \<Rightarrow> v_status v \<noteq> ''active''), VOTER_INACTIVE),
          ((case voter of None \<Rightarrow> False | Some v \<Rightarrow> v_hasVoted v), ALREADY_VOTED)])"

section \<open>Example stores\<close>

definition voter1 :: voter where
  "voter1 = \<lparr> v_voterId = ''v1'', v_passwordHash = ''hash1'', v_status = ''active'', v_hasVoted = False, v_updatedAt = 0 \<rparr>"

definition token1 :: votingToken where
  "token1 = \<lparr> t_id = 1, t_tokenId = ''t1'', t_electionId = ''e1'', t_spent = False,
              t_expiresAt = Some 300000, t_createdAt = 0, t_updatedAt = 0, t_version = 1,
              t_nonce = Some ''n1'' \<rparr>"

definition candidate1 :: candidate where
  "candidate1 = \<lparr> c_electionId = ''e1'', c_candidateId = ''c1'', c_status = ''active'' \<rparr>"

definition store1 :: db where
  "store1 = \<lparr> voters = [voter1], votingTokens = [token1], candidates = [candidate1],
              votes = [], elections = [] \<rparr>"

definition voter2 :: voter where
  "voter2 = \<lparr> v_voterId = ''v2'', v_passwordHash = ''hash2'', v_status = ''active'', v_hasVoted = False, v_updatedAt = 0 \<rparr>"

definition store2 :: db where
  "store2 = store1\<lparr>voters := [voter1, voter2]\<rparr>"

definition closed1 :: election where
  "closed1 = \<lparr> e_electionId = ''e1'', e_status = ''closed'' \<rparr>"

definition store3 :: db where
  "store3 = store1\<lparr>voters := [voter1\<lparr>v_hasVoted := True\<rparr>], elections := [closed1]\<rparr>"

definition blocked1 :: voter where
  "blocked1 = voter1\<lparr>v_hasVoted := True, v_status := ''blocked''\<rparr>"

definition store4 :: db where
  "store4 = store1\<lparr>voters := [blocked1]\<rparr>"

definition user1 :: user where
  "user1 = \<lparr> u_voterId = Some ''v1'', u_sub = None \<rparr>"

definition issueBody1 :: issue_body where
  "issueBody1 = \<lparr> ib_electionId = Some ''e1'' \<rparr>"




section \<open>Facts about the collection operations\<close>

lemma findOne_SomeD: "findOne P xs = Some x \<Longrightarrow> P x \<and> x \<in> set xs"
  by (auto simp: findOne_def find_Some_iff)


lemma matchedCount_updateOne:
  "fst (updateOne P f xs) = (if \<exists>x\<in>set xs. P x then 1 else 0)"
  by (induction xs) auto

lemma matchedCount_found: "findOne P xs = Some x \<Longrightarrow> fst (updateOne P f xs) = 1"
  using findOne_SomeD [of P xs x] by (auto simp: matchedCount_updateOne)


lemma findOne_after_updateOne:
  "findOne P xs = Some x \<Longrightarrow> P (f x) \<Longrightarrow> findOne P (snd (updateOne P f xs)) = Some (f x)"
  by (induction xs) (auto simp: findOne_def split: if_splits)

lemma findOne_after_updateOne_by_id:
  "distinct (map k xs) \<Longrightarrow> findOne P xs = Some x \<Longrightarrow> Q x \<Longrightarrow> P (f x) \<Longrightarrow>
   findOne P (snd (updateOne (\<lambda>y. k y = k x \<and> Q y) f xs)) = Some (f x)"
proof (induction xs)
  case Nil
  then show ?case by (simp add: findOne_def)
next
  case (Cons y ys)
  show ?case
  proof (cases "P y")
    case True
    with Cons.prems have "y = x" by (simp add: findOne_def)
    with Cons.prems show ?thesis by (simp add: findOne_def)
  next
    case False
    with Cons.prems have found: "findOne P ys = Some x" by (simp add: findOne_def)
    then have "x \<in> set ys" using findOne_SomeD by fastforce
    with Cons.prems have "k y \<noteq> k x" by force
    with Cons False found show ?thesis by (simp add: findOne_def)
  qed
qed


lemma withTransaction_failed: "fst (withTransaction fn d) = Inl e \<Longrightarrow> snd (withTransaction fn d) = d"
  by (cases "fn d") (auto simp: withTransaction_def split: sum.splits)

lemmas example_defs = voter1_def token1_def candidate1_def store1_def voter2_def store2_def
  closed1_def store3_def user1_def issueBody1_def

lemmas submit_defs = submit_def withTransaction_def submitVote_txn_def submitVote_write_def
  findOne_def insertOne_def tokenExpired_def nonceMismatch_def voteDoc_def

section \<open>Failure leaves no trace\<close>

text \<open>
  C3: a \<open>submit\<close> call that fails leaves every stored record as it was: the token is
  not spent, no vote is inserted and the voter's flag is unchanged. This covers a failure
  found by a validation, and the two failures found at a write (the conditional token
  update and the voter update), where the callback has already written: the second
  conjunct runs the write steps against any store, also one where the token read earlier is
  spent or the voter is gone. The third conjunct is the same fact for the handler.
\<close>

theorem submit_failure_leaves_store:
  "(fst (submit voterId tokenId electionId candidateId nonce now serverSig d) = Inl e \<longrightarrow>
      snd (submit voterId tokenId electionId candidateId nonce now serverSig d) = d)
   \<and> (fst (withTransaction
             (submitVote_write voterId tokenDoc electionId candidateId now serverSig) d) = Inl e' \<longrightarrow>
      snd (withTransaction
             (submitVote_write voterId tokenDoc electionId candidateId now serverSig) d) = d)
   \<and> (fst (submitVote configElectionId usr body now serverSig d) = Failure s c dt \<longrightarrow>
      snd (submitVote configElectionId usr body now serverSig d) = d)"
proof (intro conjI impI)
  assume "fst (submit voterId tokenId electionId candidateId nonce now serverSig d) = Inl e"
  then show "snd (submit voterId tokenId electionId candidateId nonce now serverSig d) = d"
    unfolding submit_def by (rule withTransaction_failed)
next
  assume "fst (withTransaction
             (submitVote_write voterId tokenDoc electionId candidateId now serverSig) d) = Inl e'"
  then show "snd (withTransaction
             (submitVote_write voterId tokenDoc electionId candidateId now serverSig) d) = d"
    by (rule withTransaction_failed)
next
  assume a: "fst (submitVote configElectionId usr body now serverSig d) = Failure s c dt"
  have txn: "d' = d" if "submit v t el c n now serverSig d = (Inl err, d')" for v t el c n err d'
    using that withTransaction_failed [of "submitVote_txn v t el c n now serverSig" d err]
    by (simp add: submit_def)
  from a show "snd (submitVote configElectionId usr body now serverSig d) = d"
    by (auto simp: submitVote_def Let_def split: option.splits if_splits prod.splits sum.splits
             dest: txn)
qed

theorem submit_failure_leaves_store_witness:
  "fst (submit ''v1'' ''t1'' ''e1'' ''zz'' None 1000 ''sig'' store1) = Inl (Error 400 INVALID_CANDIDATE [])
   \<and> snd (submit ''v1'' ''t1'' ''e1'' ''zz'' None 1000 ''sig'' store1) = store1
   \<and> fst (withTransaction (submitVote_write ''v1'' token1 ''e1'' ''c1'' 1000 ''sig'')
            (store1\<lparr>votingTokens := [token1\<lparr>t_spent := True\<rparr>]\<rparr>))
       = Inl (Error 409 TOKEN_ALREADY_USED [])
   \<and> snd (withTransaction (submitVote_write ''v1'' token1 ''e1'' ''c1'' 1000 ''sig'')
            (store1\<lparr>votingTokens := [token1\<lparr>t_spent := True\<rparr>]\<rparr>))
       = store1\<lparr>votingTokens := [token1\<lparr>t_spent := True\<rparr>]\<rparr>
   \<and> fst (withTransaction (submitVote_write ''v1'' token1 ''e1'' ''c1'' 1000 ''sig'')
            (store1\<lparr>voters := []\<rparr>))
       = Inl (Error 404 VOTER_NOT_FOUND [])
   \<and> votes (snd (submitVote_write ''v1'' token1 ''e1'' ''c1'' 1000 ''sig'' (store1\<lparr>voters := []\<rparr>)))
       \<noteq> []
   \<and> snd (withTransaction (submitVote_write ''v1'' token1 ''e1'' ''c1'' 1000 ''sig'')
            (store1\<lparr>voters := []\<rparr>))
       = store1\<lparr>voters := []\<rparr>
   \<and> submitVote None \<lparr>u_voterId = Some ''v1'', u_sub = None\<rparr>
        \<lparr>sb_tokenId = Some ''t1'', sb_candidateId = Some ''zz'', sb_nonce = None,
         sb_electionId = Some ''e1''\<rparr> 1000 ''sig'' store1
       = (Failure 400 INVALID_CANDIDATE [], store1)"
  using
    submit_failure_leaves_store
      [where voterId = "''v1''" and tokenId = "''t1''" and electionId = "''e1''"
         and candidateId = "''zz''" and nonce = None and now = 1000 and serverSig = "''sig''"
         and d = store1 and e = "Error 400 INVALID_CANDIDATE []"
         and configElectionId = None and usr = "\<lparr>u_voterId = Some ''v1'', u_sub = None\<rparr>"
         and body = "\<lparr>sb_tokenId = Some ''t1'', sb_candidateId = Some ''zz'', sb_nonce = None,
                        sb_electionId = Some ''e1''\<rparr>"
         and s = 400 and c = INVALID_CANDIDATE and dt = "[]"]
    submit_failure_leaves_store
      [where voterId = "''v1''" and tokenDoc = token1 and electionId = "''e1''"
         and candidateId = "''c1''" and now = 1000 and serverSig = "''sig''"
         and d = "store1\<lparr>votingTokens := [token1\<lparr>t_spent := True\<rparr>]\<rparr>"
         and e' = "Error 409 TOKEN_ALREADY_USED []"]
    submit_failure_leaves_store
      [where voterId = "''v1''" and tokenDoc = token1 and electionId = "''e1''"
         and candidateId = "''c1''" and now = 1000 and serverSig = "''sig''"
         and d = "store1\<lparr>voters := []\<rparr>" and e' = "Error 404 VOTER_NOT_FOUND []"]
  by (simp add: submit_defs example_defs submitVote_def js_or_def resolveElectionId_def
        trim_def is_space_def Let_def)

section \<open>Outcomes of a submission\<close>

lemma submitVote_write_ok:
  assumes tok: "tokenDoc \<in> set (votingTokens d)" "\<not> t_spent tokenDoc"
    and voter: "findOne (\<lambda>v. v_voterId v = voterId) (voters d) = Some voter"
  shows "submitVote_write voterId tokenDoc electionId candidateId now serverSig d =
           (Inr \<lparr> r_electionId = electionId, r_candidateId = candidateId \<rparr>,
            d\<lparr>votingTokens :=
                 snd (updateOne (\<lambda>t. t_id t = t_id tokenDoc \<and> t_spent t = False)
                                (\<lambda>t. t\<lparr>t_spent := True, t_updatedAt := now\<rparr>) (votingTokens d)),
               votes := votes d @ [voteDoc electionId candidateId now serverSig],
               voters :=
                 snd (updateOne (\<lambda>v. v_voterId v = voterId)
                                (\<lambda>v. v\<lparr>v_hasVoted := True, v_updatedAt := now\<rparr>) (voters d))\<rparr>)"
proof -
  from tok have "fst (updateOne (\<lambda>t. t_id t = t_id tokenDoc \<and> t_spent t = False)
                                (\<lambda>t. t\<lparr>t_spent := True, t_updatedAt := now\<rparr>) (votingTokens d)) = 1"
    by (auto simp: matchedCount_updateOne)
  moreover from voter have "fst (updateOne (\<lambda>v. v_voterId v = voterId)
                        (\<lambda>v. v\<lparr>v_hasVoted := True, v_updatedAt := now\<rparr>) (voters d)) = 1"
    by (rule matchedCount_found)
  ultimately show ?thesis
    by (simp add: submitVote_write_def Let_def insertOne_def)
qed

lemma submit_first_failing:
  assumes "firstFailing (submitChecks voterId tokenId electionId candidateId nonce now d) = Some c"
  shows "\<exists>e. submitVote_txn voterId tokenId electionId candidateId nonce now serverSig d = (Inl e, d)
           \<and> err_code e = c \<and> err_status e \<noteq> 0"
  using assms
  by (auto simp: submitVote_txn_def submitChecks_def Let_def split: option.splits if_splits)

lemma submit_all_pass:
  assumes "firstFailing (submitChecks voterId tokenId electionId candidateId nonce now d) = None"
  shows "\<exists>voter tokenDoc.
           findOne (\<lambda>v. v_voterId v = voterId) (voters d) = Some voter
         \<and> findOne (\<lambda>t. t_tokenId t = tokenId \<and> t_electionId t = electionId) (votingTokens d)
             = Some tokenDoc
         \<and> \<not> t_spent tokenDoc \<and> \<not> tokenExpired tokenDoc now
         \<and> submitVote_txn voterId tokenId electionId candidateId nonce now serverSig d =
             submitVote_write voterId tokenDoc electionId candidateId now serverSig d"
  using assms
  by (auto simp: submitVote_txn_def submitChecks_def Let_def split: option.splits if_splits)

lemma submit_success:
  assumes voter: "findOne (\<lambda>v. v_voterId v = voterId) (voters d) = Some voter"
      "v_status voter = ''active''" "\<not> v_hasVoted voter"
    and token: "findOne (\<lambda>t. t_tokenId t = tokenId \<and> t_electionId t = electionId)
                  (votingTokens d) = Some tokenDoc"
      "\<not> t_spent tokenDoc" "\<not> tokenExpired tokenDoc now" "\<not> nonceMismatch nonce tokenDoc"
    and cand: "findOne (\<lambda>c. c_electionId c = electionId \<and> c_candidateId c = candidateId
                           \<and> c_status c = ''active'') (candidates d) = Some candidate"
  shows "submit voterId tokenId electionId candidateId nonce now serverSig d =
           (Inr \<lparr> r_electionId = electionId, r_candidateId = candidateId \<rparr>,
            d\<lparr>votingTokens :=
                 snd (updateOne (\<lambda>t. t_id t = t_id tokenDoc \<and> t_spent t = False)
                                (\<lambda>t. t\<lparr>t_spent := True, t_updatedAt := now\<rparr>) (votingTokens d)),
               votes := votes d @ [voteDoc electionId candidateId now serverSig],
               voters :=
                 snd (updateOne (\<lambda>v. v_voterId v = voterId)
                                (\<lambda>v. v\<lparr>v_hasVoted := True, v_updatedAt := now\<rparr>) (voters d))\<rparr>)"
proof -
  from token(1) have "tokenDoc \<in> set (votingTokens d)"
    using findOne_SomeD by fastforce
  then have w: "submitVote_write voterId tokenDoc electionId candidateId now serverSig d =
           (Inr \<lparr> r_electionId = electionId, r_candidateId = candidateId \<rparr>,
            d\<lparr>votingTokens :=
                 snd (updateOne (\<lambda>t. t_id t = t_id tokenDoc \<and> t_spent t = False)
                                (\<lambda>t. t\<lparr>t_spent := True, t_updatedAt := now\<rparr>) (votingTokens d)),
               votes := votes d @ [voteDoc electionId candidateId now serverSig],
               voters :=
                 snd (updateOne (\<lambda>v. v_voterId v = voterId)
                                (\<lambda>v. v\<lparr>v_hasVoted := True, v_updatedAt := now\<rparr>) (voters d))\<rparr>)"
    using token(2) voter(1) by (rule submitVote_write_ok)
  have "submitVote_txn voterId tokenId electionId candidateId nonce now serverSig d =
          submitVote_write voterId tokenDoc electionId candidateId now serverSig d"
    using voter token cand by (simp add: submitVote_txn_def)
  with w show ?thesis
    by (simp add: submit_def withTransaction_def)
qed

lemma submit_succeeded:
  assumes "fst (submit voterId tokenId electionId candidateId nonce now serverSig d) = Inr r"
  shows "\<exists>voter tokenDoc.
           findOne (\<lambda>v. v_voterId v = voterId) (voters d) = Some voter
         \<and> findOne (\<lambda>t. t_tokenId t = tokenId \<and> t_electionId t = electionId) (votingTokens d)
             = Some tokenDoc
         \<and> \<not> t_spent tokenDoc \<and> \<not> tokenExpired tokenDoc now
         \<and> submit voterId tokenId electionId candidateId nonce now serverSig d =
           (Inr \<lparr> r_electionId = electionId, r_candidateId = candidateId \<rparr>,
            d\<lparr>votingTokens :=
                 snd (updateOne (\<lambda>t. t_id t = t_id tokenDoc \<and> t_spent t = False)
                                (\<lambda>t. t\<lparr>t_spent := True, t_updatedAt := now\<rparr>) (votingTokens d)),
               votes := votes d @ [voteDoc electionId candidateId now serverSig],
               voters :=
                 snd (updateOne (\<lambda>v. v_voterId v = voterId)
                                (\<lambda>v. v\<lparr>v_hasVoted := True, v_updatedAt := now\<rparr>) (voters d))\<rparr>)"
proof (cases "firstFailing (submitChecks voterId tokenId electionId candidateId nonce now d)")
  case (Some c)
  from submit_first_failing [OF Some, of serverSig] assms show ?thesis
    by (auto simp: submit_def withTransaction_def)
next
  case None
  from submit_all_pass [OF None, of serverSig] obtain voter tokenDoc where
    v: "findOne (\<lambda>v. v_voterId v = voterId) (voters d) = Some voter"
    and t: "findOne (\<lambda>t. t_tokenId t = tokenId \<and> t_electionId t = electionId) (votingTokens d)
             = Some tokenDoc" "\<not> t_spent tokenDoc" "\<not> tokenExpired tokenDoc now"
    and eq: "submitVote_txn voterId tokenId electionId candidateId nonce now serverSig d =
             submitVote_write voterId tokenDoc electionId candidateId now serverSig d"
    by blast
  from t(1) have "tokenDoc \<in> set (votingTokens d)"
    using findOne_SomeD by fastforce
  from submitVote_write_ok [OF this t(2) v, of electionId candidateId now serverSig] eq v t
  show ?thesis
    by (auto simp: submit_def withTransaction_def)
qed

section \<open>The first failing check decides\<close>

lemma submit_outcome:
  "(case firstFailing (submitChecks voterId tokenId electionId candidateId nonce now d) of
      Some c \<Rightarrow>
        (\<exists>e. submit voterId tokenId electionId candidateId nonce now serverSig d = (Inl e, d)
              \<and> err_code e = c \<and> err_status e \<noteq> 0)
    | None \<Rightarrow>
        fst (submit voterId tokenId electionId candidateId nonce now serverSig d) =
          Inr \<lparr> r_electionId = electionId, r_candidateId = candidateId \<rparr>)"
proof (cases "firstFailing (submitChecks voterId tokenId electionId candidateId nonce now d)")
  case (Some c)
  from submit_first_failing [OF Some, of serverSig] Some show ?thesis
    by (auto simp: submit_def withTransaction_def)
next
  case None
  from submit_all_pass [OF None, of serverSig] obtain voter tokenDoc where
    v: "findOne (\<lambda>v. v_voterId v = voterId) (voters d) = Some voter"
    and t: "findOne (\<lambda>t. t_tokenId t = tokenId \<and> t_electionId t = electionId) (votingTokens d)
             = Some tokenDoc" "\<not> t_spent tokenDoc"
    and eq: "submitVote_txn voterId tokenId electionId candidateId nonce now serverSig d =
             submitVote_write voterId tokenDoc electionId candidateId now serverSig d"
    by blast
  from t(1) have "tokenDoc \<in> set (votingTokens d)"
    using findOne_SomeD by fastforce
  from submitVote_write_ok [OF this t(2) v, of electionId candidateId now serverSig] eq None
  show ?thesis
    by (simp add: submit_def withTransaction_def)
qed

lemma submitVote_outcome:
  assumes "js_or (u_voterId usr) (u_sub usr) = Some voterId" "voterId \<noteq> []"
    and "sb_tokenId body = Some rawTokenId" "trim rawTokenId \<noteq> []"
    and "sb_candidateId body = Some rawCandidateId" "trim rawCandidateId \<noteq> []"
  shows "(case firstFailing (submitChecks voterId (trim rawTokenId)
                   (resolveElectionId (sb_electionId body) configElectionId)
                   (trim rawCandidateId) (sb_nonce body) now d) of
            Some c \<Rightarrow>
              (\<exists>s dt. submitVote configElectionId usr body now serverSig d
                        = (Failure s c dt, d))
          | None \<Rightarrow>
              fst (submitVote configElectionId usr body now serverSig d) =
                Accepted (resolveElectionId (sb_electionId body) configElectionId)
                         (trim rawCandidateId))"
  using assms
    submit_outcome [where voterId = voterId and tokenId = "trim rawTokenId"
      and electionId = "resolveElectionId (sb_electionId body) configElectionId"
      and candidateId = "trim rawCandidateId" and nonce = "sb_nonce body"
      and now = now and d = d and serverSig = serverSig]
  by (auto simp: submitVote_def Let_def split: option.splits prod.splits)

text \<open>
  C4: \<open>submit\<close> evaluates its validations in a fixed order (voter exists, voter
  active, voter has not voted, token exists for the token and election identifiers, token
  not spent, token not expired, nonce equal when supplied, candidate active in the
  election), and the first failing one decides the failure kind that is reported, with the
  store unchanged; when none fails the call succeeds. The handler passes that kind on to
  the caller as it is.
\<close>

theorem submit_first_failing_check_wins:
  "(case firstFailing (submitChecks voterId tokenId electionId candidateId nonce now d) of
      Some c \<Rightarrow>
        (\<exists>e. submit voterId tokenId electionId candidateId nonce now serverSig d = (Inl e, d)
              \<and> err_code e = c)
    | None \<Rightarrow>
        fst (submit voterId tokenId electionId candidateId nonce now serverSig d) =
          Inr \<lparr> r_electionId = electionId, r_candidateId = candidateId \<rparr>)
   \<and> (js_or (u_voterId usr) (u_sub usr) = Some voterId \<and> voterId \<noteq> []
      \<and> sb_tokenId body = Some rawTokenId \<and> trim rawTokenId = tokenId \<and> tokenId \<noteq> []
      \<and> sb_candidateId body = Some rawCandidateId \<and> trim rawCandidateId = candidateId
      \<and> candidateId \<noteq> [] \<and> sb_nonce body = nonce
      \<and> resolveElectionId (sb_electionId body) configElectionId = electionId \<longrightarrow>
      (case firstFailing (submitChecks voterId tokenId electionId candidateId nonce now d) of
         Some c \<Rightarrow>
           (\<exists>s dt. submitVote configElectionId usr body now serverSig d = (Failure s c dt, d))
       | None \<Rightarrow>
           fst (submitVote configElectionId usr body now serverSig d) =
             Accepted electionId candidateId))"
proof
  show "case firstFailing (submitChecks voterId tokenId electionId candidateId nonce now d) of
      Some c \<Rightarrow>
        (\<exists>e. submit voterId tokenId electionId candidateId nonce now serverSig d = (Inl e, d)
              \<and> err_code e = c)
    | None \<Rightarrow>
        fst (submit voterId tokenId electionId candidateId nonce now serverSig d) =
          Inr \<lparr> r_electionId = electionId, r_candidateId = candidateId \<rparr>"
    using submit_outcome [where voterId = voterId and tokenId = tokenId
            and electionId = electionId and candidateId = candidateId and nonce = nonce
            and now = now and d = d and serverSig = serverSig]
    by (auto split: option.splits)
next
  show "js_or (u_voterId usr) (u_sub usr) = Some voterId \<and> voterId \<noteq> []
      \<and> sb_tokenId body = Some rawTokenId \<and> trim rawTokenId = tokenId \<and> tokenId \<noteq> []
      \<and> sb_candidateId body = Some rawCandidateId \<and> trim rawCandidateId = candidateId
      \<and> candidateId \<noteq> [] \<and> sb_nonce body = nonce
      \<and> resolveElectionId (sb_electionId body) configElectionId = electionId \<longrightarrow>
      (case firstFailing (submitChecks voterId tokenId electionId candidateId nonce now d) of
         Some c \<Rightarrow>
           (\<exists>s dt. submitVote configElectionId usr body now serverSig d = (Failure s c dt, d))
       | None \<Rightarrow>
           fst (submitVote configElectionId usr body now serverSig d) =
             Accepted electionId candidateId)"
    using submitVote_outcome [where usr = usr and voterId = voterId and body = body
            and rawTokenId = rawTokenId and rawCandidateId = rawCandidateId
            and configElectionId = configElectionId and now = now and d = d
            and serverSig = serverSig]
    by auto
qed

text \<open>
  An expired token presented with a wrong nonce for an unknown candidate: the expiry, the
  first of the three failing checks, is what is reported.
\<close>

theorem submit_first_failing_check_wins_witness:
  "firstFailing (submitChecks ''v1'' ''t1'' ''e1'' ''zz'' (Some ''bad'') 400000 store1)
     = Some TOKEN_EXPIRED
   \<and> submit ''v1'' ''t1'' ''e1'' ''zz'' (Some ''bad'') 400000 ''sig'' store1
     = (Inl (Error 410 TOKEN_EXPIRED []), store1)
   \<and> js_or (u_voterId user1) (u_sub user1) = Some ''v1''
   \<and> trim '' t1'' = ''t1'' \<and> trim ''zz  '' = ''zz''
   \<and> resolveElectionId (Some ''e1'') None = ''e1''
   \<and> submitVote None user1
         \<lparr> sb_tokenId = Some '' t1'', sb_candidateId = Some ''zz  '',
           sb_nonce = Some ''bad'', sb_electionId = Some ''e1'' \<rparr> 400000 ''sig'' store1
     = (Failure 410 TOKEN_EXPIRED [], store1)"
  using submit_first_failing_check_wins
          [where voterId = "''v1''" and tokenId = "''t1''" and electionId = "''e1''"
             and candidateId = "''zz''" and nonce = "Some ''bad''" and now = 400000
             and d = store1 and serverSig = "''sig''" and usr = user1
             and body = "\<lparr> sb_tokenId = Some '' t1'', sb_candidateId = Some ''zz  '',
                            sb_nonce = Some ''bad'', sb_electionId = Some ''e1'' \<rparr>"
             and rawTokenId = "'' t1''" and rawCandidateId = "''zz  ''"
             and configElectionId = None]
  by (simp add: submit_defs submitChecks_def submitVote_def js_or_def resolveElectionId_def
        trim_def is_space_def example_defs Let_def)

section \<open>Submitting twice\<close>

lemma second_submit_same_voter:
  assumes voter: "findOne (\<lambda>v. v_voterId v = voterId) (voters d) = Some voter"
      "v_status voter = ''active''"
    and d': "voters d' = snd (updateOne (\<lambda>v. v_voterId v = voterId)
                                (\<lambda>v. v\<lparr>v_hasVoted := True, v_updatedAt := now\<rparr>) (voters d))"
  shows "submit voterId tokenId' electionId' candidateId' nonce' now' serverSig' d' =
           (Inl (Error 409 ALREADY_VOTED []), d')"
proof -
  have "findOne (\<lambda>v. v_voterId v = voterId) (voters d') =
          Some (voter\<lparr>v_hasVoted := True, v_updatedAt := now\<rparr>)"
    unfolding d' using voter(1)
    by (rule findOne_after_updateOne) (use voter(1) findOne_SomeD in fastforce)
  with voter(2) show ?thesis
    by (simp add: submit_def withTransaction_def submitVote_txn_def)
qed

lemma second_submit_other_voter:
  assumes token: "findOne (\<lambda>t. t_tokenId t = tokenId \<and> t_electionId t = electionId)
                  (votingTokens d) = Some tokenDoc" "\<not> t_spent tokenDoc"
    and ids: "distinct (map t_id (votingTokens d))"
    and d': "votingTokens d' =
               snd (updateOne (\<lambda>t. t_id t = t_id tokenDoc \<and> t_spent t = False)
                              (\<lambda>t. t\<lparr>t_spent := True, t_updatedAt := now\<rparr>) (votingTokens d))"
    and voterB: "findOne (\<lambda>v. v_voterId v = voterIdB) (voters d') = Some voterB"
      "v_status voterB = ''active''" "\<not> v_hasVoted voterB"
  shows "submit voterIdB tokenId electionId candidateId' nonce' now' serverSig' d' =
           (Inl (Error 409 TOKEN_ALREADY_USED []), d')"
proof -
  have "tokenId = t_tokenId tokenDoc \<and> electionId = t_electionId tokenDoc"
    using token(1) findOne_SomeD by fastforce
  then have "findOne (\<lambda>t. t_tokenId t = tokenId \<and> t_electionId t = electionId) (votingTokens d') =
          Some (tokenDoc\<lparr>t_spent := True, t_updatedAt := now\<rparr>)"
    unfolding d' using token
    by (intro findOne_after_updateOne_by_id [OF ids]) simp_all
  with voterB show ?thesis
    by (simp add: submit_def withTransaction_def submitVote_txn_def)
qed

lemma token_write_unmatched:
  assumes "\<not> (\<exists>t\<in>set (votingTokens d). t_id t = t_id tokenDoc \<and> \<not> t_spent t)"
  shows "withTransaction (submitVote_write voterId tokenDoc electionId candidateId now serverSig) d
           = (Inl (Error 409 TOKEN_ALREADY_USED []), d)"
proof -
  from assms have "fst (updateOne (\<lambda>t. t_id t = t_id tokenDoc \<and> t_spent t = False)
                                (\<lambda>t. t\<lparr>t_spent := True, t_updatedAt := now\<rparr>) (votingTokens d)) = 0"
    by (auto simp: matchedCount_updateOne)
  then show ?thesis
    by (simp add: withTransaction_def submitVote_write_def Let_def)
qed

text \<open>
  C1: with a valid token, an active voter who has not voted, an active candidate and a
  matching nonce, the first \<open>submit\<close> succeeds and returns the election and candidate
  identifiers. The second call with the same arguments fails with \<open>ALREADY_VOTED\<close>,
  since the voter is checked before the token; a second redemption of the same token by
  another eligible voter fails with \<open>TOKEN_ALREADY_USED\<close> (token \<^verbatim>\<open>_id\<close>s being unique).
  The token write matches on the \<^verbatim>\<open>_id\<close> and \<open>spent = false\<close>: run against a
  store with no such record it aborts with \<open>TOKEN_ALREADY_USED\<close>.
\<close>

theorem submit_twice:
  assumes voter: "findOne (\<lambda>v. v_voterId v = voterId) (voters d) = Some voter"
      "v_status voter = ''active''" "\<not> v_hasVoted voter"
    and token: "findOne (\<lambda>t. t_tokenId t = tokenId \<and> t_electionId t = electionId)
                  (votingTokens d) = Some tokenDoc"
      "\<not> t_spent tokenDoc" "\<not> tokenExpired tokenDoc now" "\<not> nonceMismatch nonce tokenDoc"
    and cand: "findOne (\<lambda>c. c_electionId c = electionId \<and> c_candidateId c = candidateId
                           \<and> c_status c = ''active'') (candidates d) = Some candidate"
    and d': "d' = snd (submit voterId tokenId electionId candidateId nonce now serverSig d)"
  shows "fst (submit voterId tokenId electionId candidateId nonce now serverSig d)
           = Inr \<lparr> r_electionId = electionId, r_candidateId = candidateId \<rparr>
       \<and> submit voterId tokenId electionId candidateId nonce now' serverSig' d'
           = (Inl (Error 409 ALREADY_VOTED []), d')
       \<and> (distinct (map t_id (votingTokens d))
            \<and> findOne (\<lambda>v. v_voterId v = voterIdB) (voters d') = Some voterB
            \<and> v_status voterB = ''active'' \<and> \<not> v_hasVoted voterB \<longrightarrow>
          submit voterIdB tokenId electionId candidateIdB nonceB nowB serverSigB d'
            = (Inl (Error 409 TOKEN_ALREADY_USED []), d'))
       \<and> (\<not> (\<exists>t\<in>set (votingTokens dB). t_id t = t_id tokenDoc \<and> \<not> t_spent t) \<longrightarrow>
          withTransaction
            (submitVote_write voterId tokenDoc electionId candidateId now serverSig) dB
            = (Inl (Error 409 TOKEN_ALREADY_USED []), dB))"
proof -
  note ok = submit_success [OF voter token cand, where serverSig = serverSig]
  have first: "fst (submit voterId tokenId electionId candidateId nonce now serverSig d)
           = Inr \<lparr> r_electionId = electionId, r_candidateId = candidateId \<rparr>"
    by (simp add: ok)
  have vs: "voters d' = snd (updateOne (\<lambda>v. v_voterId v = voterId)
                                (\<lambda>v. v\<lparr>v_hasVoted := True, v_updatedAt := now\<rparr>) (voters d))"
    and ts: "votingTokens d' =
               snd (updateOne (\<lambda>t. t_id t = t_id tokenDoc \<and> t_spent t = False)
                              (\<lambda>t. t\<lparr>t_spent := True, t_updatedAt := now\<rparr>) (votingTokens d))"
    by (simp_all add: d' ok)
  have second: "submit voterId tokenId electionId candidateId nonce now' serverSig' d'
           = (Inl (Error 409 ALREADY_VOTED []), d')"
    using voter(1,2) vs by (rule second_submit_same_voter)
  have other: "submit voterIdB tokenId electionId candidateIdB nonceB nowB serverSigB d'
            = (Inl (Error 409 TOKEN_ALREADY_USED []), d')"
    if "distinct (map t_id (votingTokens d))"
      "findOne (\<lambda>v. v_voterId v = voterIdB) (voters d') = Some voterB"
      "v_status voterB = ''active''" "\<not> v_hasVoted voterB"
    using token(1,2) that(1) ts that(2,3,4) by (rule second_submit_other_voter)
  have unmatched: "withTransaction
            (submitVote_write voterId tokenDoc electionId candidateId now serverSig) dB
            = (Inl (Error 409 TOKEN_ALREADY_USED []), dB)"
    if "\<not> (\<exists>t\<in>set (votingTokens dB). t_id t = t_id tokenDoc \<and> \<not> t_spent t)"
    using that by (rule token_write_unmatched)
  from first second other unmatched show ?thesis
    by blast
qed

theorem submit_twice_witness:
  "findOne (\<lambda>v. v_voterId v = ''v1'') (voters store2) = Some voter1
   \<and> v_status voter1 = ''active'' \<and> \<not> v_hasVoted voter1
   \<and> findOne (\<lambda>t. t_tokenId t = ''t1'' \<and> t_electionId t = ''e1'') (votingTokens store2)
       = Some token1
   \<and> \<not> t_spent token1 \<and> \<not> tokenExpired token1 1000 \<and> \<not> nonceMismatch (Some ''n1'') token1
   \<and> findOne (\<lambda>c. c_electionId c = ''e1'' \<and> c_candidateId c = ''c1'' \<and> c_status c = ''active'')
         (candidates store2) = Some candidate1
   \<and> fst (submit ''v1'' ''t1'' ''e1'' ''c1'' (Some ''n1'') 1000 ''sig'' store2)
       = Inr \<lparr> r_electionId = ''e1'', r_candidateId = ''c1'' \<rparr>
   \<and> fst (submit ''v1'' ''t1'' ''e1'' ''c1'' (Some ''n1'') 2000 ''sig2''
            (snd (submit ''v1'' ''t1'' ''e1'' ''c1'' (Some ''n1'') 1000 ''sig'' store2)))
       = Inl (Error 409 ALREADY_VOTED [])
   \<and> distinct (map t_id (votingTokens store2))
   \<and> fst (submit ''v2'' ''t1'' ''e1'' ''c1'' None 2000 ''sig2''
            (snd (submit ''v1'' ''t1'' ''e1'' ''c1'' (Some ''n1'') 1000 ''sig'' store2)))
       = Inl (Error 409 TOKEN_ALREADY_USED [])
   \<and> fst (withTransaction (submitVote_write ''v1'' token1 ''e1'' ''c1'' 1000 ''sig'')
            (store2\<lparr>votingTokens := [token1\<lparr>t_spent := True\<rparr>]\<rparr>))
       = Inl (Error 409 TOKEN_ALREADY_USED [])"
  using submit_twice
          [where voterId = "''v1''" and tokenId = "''t1''" and electionId = "''e1''"
             and candidateId = "''c1''" and nonce = "Some ''n1''" and now = 1000
             and serverSig = "''sig''" and d = store2 and voter = voter1 and tokenDoc = token1
             and candidate = candidate1 and now' = 2000 and serverSig' = "''sig2''"
             and d' = "snd (submit ''v1'' ''t1'' ''e1'' ''c1'' (Some ''n1'') 1000 ''sig'' store2)"
             and voterIdB = "''v2''" and voterB = voter2 and candidateIdB = "''c1''"
             and nonceB = None and nowB = 2000 and serverSigB = "''sig2''"
             and dB = "store2\<lparr>votingTokens := [token1\<lparr>t_spent := True\<rparr>]\<rparr>"]
  by (simp add: submit_defs example_defs Let_def)

text \<open>
  The second of two identical calls is answered \<open>ALREADY_VOTED\<close>, not
  \<open>TOKEN_ALREADY_USED\<close>.
\<close>

theorem submit_twice_counterexample:
  "fst (submit ''v1'' ''t1'' ''e1'' ''c1'' (Some ''n1'') 1000 ''sig'' store1)
     = Inr \<lparr> r_electionId = ''e1'', r_candidateId = ''c1'' \<rparr>
   \<and> fst (submit ''v1'' ''t1'' ''e1'' ''c1'' (Some ''n1'') 1000 ''sig''
            (snd (submit ''v1'' ''t1'' ''e1'' ''c1'' (Some ''n1'') 1000 ''sig'' store1)))
     = Inl (Error 409 ALREADY_VOTED [])
   \<and> fst (submit ''v1'' ''t1'' ''e1'' ''c1'' (Some ''n1'') 1000 ''sig''
            (snd (submit ''v1'' ''t1'' ''e1'' ''c1'' (Some ''n1'') 1000 ''sig'' store1)))
     \<noteq> Inl (Error 409 TOKEN_ALREADY_USED [])"
  by (simp add: submit_defs example_defs Let_def)

section \<open>The vote record\<close>

text \<open>
  C2: a successful \<open>submit\<close> inserts exactly one vote record, whose fields are
  \<open>electionId\<close>, \<open>candidateId\<close>, \<open>createdAt\<close>, \<open>serverSig\<close>, \<open>version\<close> (the
  constant 1) and \<open>meta\<close> (the empty object). It holds no voter identifier and no token
  identifier: any other successful call for the same election and candidate with the same
  clock reading and signature, by whatever voter with whatever token on whatever store,
  inserts the same record.
\<close>

theorem vote_record_fields:
  assumes "fst (submit voterId tokenId electionId candidateId nonce now serverSig d) = Inr r"
  shows "votes (snd (submit voterId tokenId electionId candidateId nonce now serverSig d)) =
           votes d @ [[(''electionId'', JStr electionId),
                       (''candidateId'', JStr candidateId),
                       (''createdAt'', JDate now),
                       (''serverSig'', JStr serverSig),
                       (''version'', JNum 1),
                       (''meta'', JObj [])]]
       \<and> (fst (submit voterIdB tokenIdB electionId candidateId nonceB now serverSig dB) = Inr rB \<longrightarrow>
            last (votes (snd (submit voterIdB tokenIdB electionId candidateId nonceB now serverSig dB)))
            = last (votes (snd (submit voterId tokenId electionId candidateId nonce now serverSig d))))"
proof -
  have ins: "votes (snd (submit v t electionId candidateId n now serverSig s)) =
           votes s @ [voteDoc electionId candidateId now serverSig]"
    if "fst (submit v t electionId candidateId n now serverSig s) = Inr x" for v t n s x
    using submit_succeeded [OF that] by auto
  from ins [OF assms] ins [of voterIdB tokenIdB nonceB dB rB] show ?thesis
    by (auto simp: voteDoc_def)
qed

theorem vote_record_fields_witness:
  "fst (submit ''v1'' ''t1'' ''e1'' ''c1'' None 1000 ''sig'' store1)
     = Inr \<lparr> r_electionId = ''e1'', r_candidateId = ''c1'' \<rparr>
   \<and> votes (snd (submit ''v1'' ''t1'' ''e1'' ''c1'' None 1000 ''sig'' store1)) =
           [[(''electionId'', JStr ''e1''), (''candidateId'', JStr ''c1''),
             (''createdAt'', JDate 1000), (''serverSig'', JStr ''sig''),
             (''version'', JNum 1), (''meta'', JObj [])]]
   \<and> fst (submit ''v2'' ''t1'' ''e1'' ''c1'' (Some ''n1'') 1000 ''sig'' store2)
     = Inr \<lparr> r_electionId = ''e1'', r_candidateId = ''c1'' \<rparr>
   \<and> last (votes (snd (submit ''v2'' ''t1'' ''e1'' ''c1'' (Some ''n1'') 1000 ''sig'' store2)))
     = last (votes (snd (submit ''v1'' ''t1'' ''e1'' ''c1'' None 1000 ''sig'' store1)))"
  using vote_record_fields
          [where voterId = "''v1''" and tokenId = "''t1''" and electionId = "''e1''"
             and candidateId = "''c1''" and nonce = None and now = 1000
             and serverSig = "''sig''" and d = store1
             and r = "\<lparr> r_electionId = ''e1'', r_candidateId = ''c1'' \<rparr>"
             and voterIdB = "''v2''" and tokenIdB = "''t1''" and nonceB = "Some ''n1''"
             and dB = store2 and rB = "\<lparr> r_electionId = ''e1'', r_candidateId = ''c1'' \<rparr>"]
  by (simp add: submit_defs example_defs Let_def)

text \<open>The inserted record has six fields, \<open>version\<close> and \<open>meta\<close> among them.\<close>

theorem vote_record_fields_counterexample:
  "fst (submit ''v1'' ''t1'' ''e1'' ''c1'' None 1000 ''sig'' store1)
     = Inr \<lparr> r_electionId = ''e1'', r_candidateId = ''c1'' \<rparr>
   \<and> map fst (last (votes (snd (submit ''v1'' ''t1'' ''e1'' ''c1'' None 1000 ''sig'' store1))))
     = [''electionId'', ''candidateId'', ''createdAt'', ''serverSig'', ''version'', ''meta'']"
  by (simp add: submit_defs example_defs Let_def)

section \<open>Expiry\<close>

text \<open>
  C6: a \<open>submit\<close> by an eligible voter naming an unspent token whose \<open>expiresAt\<close>
  is not after the clock reading fails with \<open>TOKEN_EXPIRED\<close>, whatever the nonce and
  the candidate; and a token that was redeemed was unspent with \<open>expiresAt\<close> after the
  clock reading.
\<close>

theorem expired_token_rejected:
  "(findOne (\<lambda>v. v_voterId v = voterId) (voters d) = Some voter
      \<and> v_status voter = ''active'' \<and> \<not> v_hasVoted voter
      \<and> findOne (\<lambda>t. t_tokenId t = tokenId \<and> t_electionId t = electionId) (votingTokens d)
          = Some tokenDoc
      \<and> \<not> t_spent tokenDoc \<and> t_expiresAt tokenDoc = Some e \<and> e \<le> now \<longrightarrow>
    submit voterId tokenId electionId candidateId nonce now serverSig d
      = (Inl (Error 410 TOKEN_EXPIRED []), d))
   \<and> (fst (submit voterId tokenId electionId candidateId nonce now serverSig d) = Inr r
      \<and> findOne (\<lambda>t. t_tokenId t = tokenId \<and> t_electionId t = electionId) (votingTokens d)
          = Some tokenDoc
      \<and> t_expiresAt tokenDoc = Some e \<longrightarrow>
    \<not> t_spent tokenDoc \<and> now < e)"
proof (intro conjI impI)
  assume "findOne (\<lambda>v. v_voterId v = voterId) (voters d) = Some voter
      \<and> v_status voter = ''active'' \<and> \<not> v_hasVoted voter
      \<and> findOne (\<lambda>t. t_tokenId t = tokenId \<and> t_electionId t = electionId) (votingTokens d)
          = Some tokenDoc
      \<and> \<not> t_spent tokenDoc \<and> t_expiresAt tokenDoc = Some e \<and> e \<le> now"
  then show "submit voterId tokenId electionId candidateId nonce now serverSig d
      = (Inl (Error 410 TOKEN_EXPIRED []), d)"
    by (simp add: submit_def withTransaction_def submitVote_txn_def tokenExpired_def)
next
  assume a: "fst (submit voterId tokenId electionId candidateId nonce now serverSig d) = Inr r
      \<and> findOne (\<lambda>t. t_tokenId t = tokenId \<and> t_electionId t = electionId) (votingTokens d)
          = Some tokenDoc
      \<and> t_expiresAt tokenDoc = Some e"
  with submit_succeeded [of voterId tokenId electionId candidateId nonce now serverSig d r]
  have "\<not> t_spent tokenDoc \<and> \<not> tokenExpired tokenDoc now"
    by auto
  with a show "\<not> t_spent tokenDoc" and "now < e"
    by (simp_all add: tokenExpired_def)
qed

theorem expired_token_rejected_witness:
  "findOne (\<lambda>v. v_voterId v = ''v1'') (voters store1) = Some voter1
   \<and> v_status voter1 = ''active'' \<and> \<not> v_hasVoted voter1
   \<and> findOne (\<lambda>t. t_tokenId t = ''t1'' \<and> t_electionId t = ''e1'') (votingTokens store1)
       = Some token1
   \<and> \<not> t_spent token1 \<and> t_expiresAt token1 = Some 300000 \<and> (300000 :: int) \<le> 300001
   \<and> submit ''v1'' ''t1'' ''e1'' ''c1'' (Some ''n1'') 300001 ''sig'' store1
       = (Inl (Error 410 TOKEN_EXPIRED []), store1)
   \<and> fst (submit ''v1'' ''t1'' ''e1'' ''c1'' (Some ''n1'') 299999 ''sig'' store1)
       = Inr \<lparr> r_electionId = ''e1'', r_candidateId = ''c1'' \<rparr>
   \<and> (299999 :: int) < 300000"
  using expired_token_rejected
          [where voterId = "''v1''" and tokenId = "''t1''" and electionId = "''e1''"
             and candidateId = "''c1''" and nonce = "Some ''n1''" and now = 300001
             and serverSig = "''sig''" and d = store1 and voter = voter1 and tokenDoc = token1
             and e = 300000]
        expired_token_rejected
          [where voterId = "''v1''" and tokenId = "''t1''" and electionId = "''e1''"
             and candidateId = "''c1''" and nonce = "Some ''n1''" and now = 299999
             and serverSig = "''sig''" and d = store1 and voter = voter1 and tokenDoc = token1
             and e = 300000 and r = "\<lparr> r_electionId = ''e1'', r_candidateId = ''c1'' \<rparr>"]
  by (simp add: submit_defs example_defs Let_def)

section \<open>The election record plays no part in a submission\<close>

lemma submitVote_txn_elections:
  "submitVote_txn voterId tokenId electionId candidateId nonce now serverSig (d\<lparr>elections := es\<rparr>) =
     (fst (submitVote_txn voterId tokenId electionId candidateId nonce now serverSig d),
      (snd (submitVote_txn voterId tokenId electionId candidateId nonce now serverSig d))
        \<lparr>elections := es\<rparr>)"
  by (simp add: submitVote_txn_def submitVote_write_def Let_def split: option.splits)

lemma submit_elections:
  "submit voterId tokenId electionId candidateId nonce now serverSig (d\<lparr>elections := es\<rparr>) =
     (fst (submit voterId tokenId electionId candidateId nonce now serverSig d),
      (snd (submit voterId tokenId electionId candidateId nonce now serverSig d))
        \<lparr>elections := es\<rparr>)"
  by (cases "submitVote_txn voterId tokenId electionId candidateId nonce now serverSig d")
     (simp add: submit_def withTransaction_def submitVote_txn_elections split: sum.splits)

text \<open>
  C9: \<open>submit\<close> never reads the election records. When its own checks pass, the
  redemption succeeds whatever the election records are, also when the election is
  closed or finalized: the call returns the election and candidate identifiers, and the
  store it leaves is the given one with the token marked spent, one vote appended and the
  voter marked as having voted, the election records being as they were. The outcome on
  a store differs from the outcome on the same store with other election records in
  nothing but those records.
\<close>

theorem submit_ignores_election_status:
  assumes voter: "findOne (\<lambda>v. v_voterId v = voterId) (voters d) = Some voter"
      "v_status voter = ''active''" "\<not> v_hasVoted voter"
    and token: "findOne (\<lambda>t. t_tokenId t = tokenId \<and> t_electionId t = electionId)
                  (votingTokens d) = Some tokenDoc"
      "\<not> t_spent tokenDoc" "\<not> tokenExpired tokenDoc now" "\<not> nonceMismatch nonce tokenDoc"
    and cand: "findOne (\<lambda>c. c_electionId c = electionId \<and> c_candidateId c = candidateId
                           \<and> c_status c = ''active'') (candidates d) = Some candidate"
    and d': "d' = snd (submit voterId tokenId electionId candidateId nonce now serverSig
                         (d\<lparr>elections := es\<rparr>))"
  shows "submit voterId tokenId electionId candidateId nonce now serverSig (d\<lparr>elections := es\<rparr>)
           = (Inr \<lparr> r_electionId = electionId, r_candidateId = candidateId \<rparr>,
              d\<lparr>elections := es,
                votingTokens :=
                  snd (updateOne (\<lambda>t. t_id t = t_id tokenDoc \<and> t_spent t = False)
                                 (\<lambda>t. t\<lparr>t_spent := True, t_updatedAt := now\<rparr>) (votingTokens d)),
                votes := votes d @ [voteDoc electionId candidateId now serverSig],
                voters :=
                  snd (updateOne (\<lambda>v. v_voterId v = voterId)
                                 (\<lambda>v. v\<lparr>v_hasVoted := True, v_updatedAt := now\<rparr>) (voters d))\<rparr>)
       \<and> findOne (\<lambda>v. v_voterId v = voterId) (voters d')
           = Some (voter\<lparr>v_hasVoted := True, v_updatedAt := now\<rparr>)
       \<and> votes d' = votes d @ [voteDoc electionId candidateId now serverSig]
       \<and> (distinct (map t_id (votingTokens d)) \<longrightarrow>
            findOne (\<lambda>t. t_tokenId t = tokenId \<and> t_electionId t = electionId) (votingTokens d')
            = Some (tokenDoc\<lparr>t_spent := True, t_updatedAt := now\<rparr>))
       \<and> elections d' = es
       \<and> submit voterId tokenId electionId candidateId nonce now serverSig (d\<lparr>elections := es\<rparr>)
           = (fst (submit voterId tokenId electionId candidateId nonce now serverSig d),
              (snd (submit voterId tokenId electionId candidateId nonce now serverSig d))
                \<lparr>elections := es\<rparr>)"
proof -
  note ok = submit_success [OF voter token cand, where serverSig = serverSig]
  have eq: "submit voterId tokenId electionId candidateId nonce now serverSig (d\<lparr>elections := es\<rparr>)
           = (fst (submit voterId tokenId electionId candidateId nonce now serverSig d),
              (snd (submit voterId tokenId electionId candidateId nonce now serverSig d))
                \<lparr>elections := es\<rparr>)"
    by (rule submit_elections)
  have res: "submit voterId tokenId electionId candidateId nonce now serverSig (d\<lparr>elections := es\<rparr>)
           = (Inr \<lparr> r_electionId = electionId, r_candidateId = candidateId \<rparr>,
              d\<lparr>elections := es,
                votingTokens :=
                  snd (updateOne (\<lambda>t. t_id t = t_id tokenDoc \<and> t_spent t = False)
                                 (\<lambda>t. t\<lparr>t_spent := True, t_updatedAt := now\<rparr>) (votingTokens d)),
                votes := votes d @ [voteDoc electionId candidateId now serverSig],
                voters :=
                  snd (updateOne (\<lambda>v. v_voterId v = voterId)
                                 (\<lambda>v. v\<lparr>v_hasVoted := True, v_updatedAt := now\<rparr>) (voters d))\<rparr>)"
    by (simp add: eq ok)
  have vs: "voters d' = snd (updateOne (\<lambda>v. v_voterId v = voterId)
                                (\<lambda>v. v\<lparr>v_hasVoted := True, v_updatedAt := now\<rparr>) (voters d))"
    and ts: "votingTokens d' =
               snd (updateOne (\<lambda>t. t_id t = t_id tokenDoc \<and> t_spent t = False)
                              (\<lambda>t. t\<lparr>t_spent := True, t_updatedAt := now\<rparr>) (votingTokens d))"
    and vo: "votes d' = votes d @ [voteDoc electionId candidateId now serverSig]"
    and el: "elections d' = es"
    by (simp_all add: d' res)
  have marked: "findOne (\<lambda>v. v_voterId v = voterId) (voters d')
           = Some (voter\<lparr>v_hasVoted := True, v_updatedAt := now\<rparr>)"
    unfolding vs using voter(1)
    by (rule findOne_after_updateOne) (use voter(1) findOne_SomeD in fastforce)
  have spent: "findOne (\<lambda>t. t_tokenId t = tokenId \<and> t_electionId t = electionId) (votingTokens d')
            = Some (tokenDoc\<lparr>t_spent := True, t_updatedAt := now\<rparr>)"
    if ids: "distinct (map t_id (votingTokens d))"
  proof -
    have "tokenId = t_tokenId tokenDoc \<and> electionId = t_electionId tokenDoc"
      using token(1) findOne_SomeD by fastforce
    then show ?thesis
      unfolding ts using token
      by (intro findOne_after_updateOne_by_id [OF ids]) simp_all
  qed
  from res marked vo spent el eq show ?thesis
    by blast
qed

text \<open>A redemption in an election that is closed.\<close>

theorem submit_ignores_election_status_witness:
  "findOne (\<lambda>v. v_voterId v = ''v1'') (voters store1) = Some voter1
   \<and> v_status voter1 = ''active'' \<and> \<not> v_hasVoted voter1
   \<and> findOne (\<lambda>t. t_tokenId t = ''t1'' \<and> t_electionId t = ''e1'') (votingTokens store1)
       = Some token1
   \<and> \<not> t_spent token1 \<and> \<not> tokenExpired token1 1000 \<and> \<not> nonceMismatch (Some ''n1'') token1
   \<and> findOne (\<lambda>c. c_electionId c = ''e1'' \<and> c_candidateId c = ''c1'' \<and> c_status c = ''active'')
         (candidates store1) = Some candidate1
   \<and> distinct (map t_id (votingTokens store1))
   \<and> \<not> isElectionOpen ''e1'' (store1\<lparr>elections := [closed1]\<rparr>)
   \<and> submit ''v1'' ''t1'' ''e1'' ''c1'' (Some ''n1'') 1000 ''sig''
         (store1\<lparr>elections := [closed1]\<rparr>)
       = (Inr \<lparr> r_electionId = ''e1'', r_candidateId = ''c1'' \<rparr>,
          \<lparr> voters = [voter1\<lparr>v_hasVoted := True, v_updatedAt := 1000\<rparr>],
            votingTokens = [token1\<lparr>t_spent := True, t_updatedAt := 1000\<rparr>],
            candidates = [candidate1],
            votes = [voteDoc ''e1'' ''c1'' 1000 ''sig''],
            elections = [closed1] \<rparr>)"
  using submit_ignores_election_status
          [where voterId = "''v1''" and tokenId = "''t1''" and electionId = "''e1''"
             and candidateId = "''c1''" and nonce = "Some ''n1''" and now = 1000
             and serverSig = "''sig''" and d = store1 and voter = voter1 and tokenDoc = token1
             and candidate = candidate1 and es = "[closed1]"
             and d' = "snd (submit ''v1'' ''t1'' ''e1'' ''c1'' (Some ''n1'') 1000 ''sig''
                              (store1\<lparr>elections := [closed1]\<rparr>))"]
  by (simp add: submit_defs example_defs isElectionOpen_def Let_def)

section \<open>Issuing a token\<close>

lemma issue_first_failing:
  assumes "js_or (u_voterId usr) (u_sub usr) = Some voterId" "voterId \<noteq> []"
    and "firstFailing (issueChecks voterId
           (resolveElectionId (ib_electionId body) configElectionId) d) = Some c"
  shows "\<exists>s dt. issueToken configElectionId usr body now newId tokenId nonce d
                  = (Failure s c dt, d)"
  using assms
  by (auto simp: issueToken_def issueChecks_def Let_def split: option.splits if_splits)

lemma issue_all_pass:
  assumes "js_or (u_voterId usr) (u_sub usr) = Some voterId" "voterId \<noteq> []"
    and "firstFailing (issueChecks voterId
           (resolveElectionId (ib_electionId body) configElectionId) d) = None"
  shows "issueToken configElectionId usr body now newId tokenId nonce d =
           (TokenIssued tokenId nonce (now + 300000),
            d\<lparr>votingTokens := votingTokens d @
               [\<lparr> t_id = newId, t_tokenId = tokenId,
                  t_electionId = resolveElectionId (ib_electionId body) configElectionId,
                  t_spent = False, t_expiresAt = Some (now + 300000), t_createdAt = now,
                  t_updatedAt = now, t_version = 1, t_nonce = Some nonce \<rparr>]\<rparr>)"
  using assms
  by (auto simp: issueToken_def issueChecks_def Let_def insertOne_def TOKEN_TTL_MS_def
           split: option.splits if_splits)

text \<open>
  C5: for an identified voter, \<open>issueToken\<close> checks in this order that the election
  is open, that the voter exists, that the voter is active and that the voter has not
  voted; the first failing check decides the failure kind and the store is unchanged. When
  all pass, the store gains exactly one token record, unspent and expiring five minutes
  (300000 ms) after the clock reading, every other record is as before, and the token
  identifier, the nonce and the expiry are returned. The new record and the answer do not
  depend on the voter: any other voter passing the checks gets the same outcome.
\<close>

theorem issueToken_ordered_checks:
  assumes usr: "js_or (u_voterId usr) (u_sub usr) = Some voterId" "voterId \<noteq> []"
    and electionId: "electionId = resolveElectionId (ib_electionId body) configElectionId"
  shows "(case firstFailing (issueChecks voterId electionId d) of
            Some c \<Rightarrow>
              (\<exists>s dt. issueToken configElectionId usr body now newId tokenId nonce d
                        = (Failure s c dt, d))
          | None \<Rightarrow>
              issueToken configElectionId usr body now newId tokenId nonce d =
                (TokenIssued tokenId nonce (now + 300000),
                 d\<lparr>votingTokens := votingTokens d @
                    [\<lparr> t_id = newId, t_tokenId = tokenId, t_electionId = electionId,
                       t_spent = False, t_expiresAt = Some (now + 300000), t_createdAt = now,
                       t_updatedAt = now, t_version = 1, t_nonce = Some nonce \<rparr>]\<rparr>)
              \<and> (js_or (u_voterId usrB) (u_sub usrB) = Some voterIdB \<and> voterIdB \<noteq> []
                   \<and> firstFailing (issueChecks voterIdB electionId d) = None \<longrightarrow>
                 issueToken configElectionId usrB body now newId tokenId nonce d =
                 issueToken configElectionId usr body now newId tokenId nonce d))"
proof (cases "firstFailing (issueChecks voterId electionId d)")
  case (Some c)
  with issue_first_failing [OF usr, of body configElectionId d c now newId tokenId nonce]
  show ?thesis by (simp add: electionId)
next
  case None
  note a = issue_all_pass [OF usr, of body configElectionId d now newId tokenId nonce]
  have b: "issueToken configElectionId usrB body now newId tokenId nonce d =
             issueToken configElectionId usr body now newId tokenId nonce d"
    if "js_or (u_voterId usrB) (u_sub usrB) = Some voterIdB" "voterIdB \<noteq> []"
       "firstFailing (issueChecks voterIdB electionId d) = None"
    using issue_all_pass [OF that(1,2), of body configElectionId d now newId tokenId nonce]
      that(3) a None by (simp add: electionId)
  from a b None show ?thesis by (simp add: electionId)
qed

lemmas issue_defs = issueToken_def issueChecks_def isElectionOpen_def js_or_def
  resolveElectionId_def TOKEN_TTL_MS_def

theorem issueToken_ordered_checks_witness:
  "js_or (u_voterId user1) (u_sub user1) = Some ''v1'' \<and> ''v1'' \<noteq> []
   \<and> ''e1'' = resolveElectionId (ib_electionId issueBody1) None
   \<and> firstFailing (issueChecks ''v1'' ''e1'' store1) = None
   \<and> issueToken None user1 issueBody1 1000 7 ''tok'' ''nn'' store1 =
       (TokenIssued ''tok'' ''nn'' 301000,
        store1\<lparr>votingTokens := [token1,
           \<lparr> t_id = 7, t_tokenId = ''tok'', t_electionId = ''e1'', t_spent = False,
             t_expiresAt = Some 301000, t_createdAt = 1000, t_updatedAt = 1000, t_version = 1,
             t_nonce = Some ''nn'' \<rparr>]\<rparr>)
   \<and> firstFailing (issueChecks ''v1'' ''e1'' store3) = Some ELECTION_NOT_OPEN
   \<and> issueToken None user1 issueBody1 1000 7 ''tok'' ''nn'' store3 =
       (Failure 409 ELECTION_NOT_OPEN [(''electionId'', JStr ''e1'')], store3)"
  using issueToken_ordered_checks
          [where usr = user1 and voterId = "''v1''" and electionId = "''e1''"
             and body = issueBody1 and configElectionId = None and d = store1 and now = 1000
             and newId = 7 and tokenId = "''tok''" and nonce = "''nn''"
             and usrB = user1 and voterIdB = "''v1''"]
        issueToken_ordered_checks
          [where usr = user1 and voterId = "''v1''" and electionId = "''e1''"
             and body = issueBody1 and configElectionId = None and d = store3 and now = 1000
             and newId = 7 and tokenId = "''tok''" and nonce = "''nn''"]
  by (simp add: issue_defs findOne_def insertOne_def example_defs Let_def)

section \<open>A voter who has voted\<close>

text \<open>
  C8: for a voter whose \<open>hasVoted\<close> flag is set, every \<open>submit\<close> and every
  \<open>issueToken\<close> call fails and leaves the store unchanged, so that a retry meets the
  same store and fails again. \<open>submit\<close> fails with \<open>VOTER_INACTIVE\<close> when the voter
  is not active and with \<open>ALREADY_VOTED\<close> otherwise. \<open>issueToken\<close> fails with
  \<open>ELECTION_NOT_OPEN\<close> when the election is not open, else with \<open>VOTER_INACTIVE\<close>
  when the voter is not active, and with \<open>ALREADY_VOTED\<close> otherwise.
\<close>

theorem voted_voter_rejected:
  assumes voter: "findOne (\<lambda>v. v_voterId v = voterId) (voters d) = Some voter"
      "v_hasVoted voter"
    and usr: "js_or (u_voterId usr) (u_sub usr) = Some voterId" "voterId \<noteq> []"
    and electionId: "issueElectionId = resolveElectionId (ib_electionId body) configElectionId"
  shows "submit voterId tokenId electionId candidateId nonce now serverSig d =
           (Inl (if v_status voter \<noteq> ''active''
                 then Error 403 VOTER_INACTIVE [(''status'', JStr (v_status voter))]
                 else Error 409 ALREADY_VOTED []), d)
       \<and> issueToken configElectionId usr body now newId newTokenId newNonce d =
           (if \<not> isElectionOpen issueElectionId d
            then Failure 409 ELECTION_NOT_OPEN [(''electionId'', JStr issueElectionId)]
            else if v_status voter \<noteq> ''active''
            then Failure 403 VOTER_INACTIVE [(''status'', JStr (v_status voter))]
            else Failure 409 ALREADY_VOTED [], d)"
proof
  from voter show "submit voterId tokenId electionId candidateId nonce now serverSig d =
           (Inl (if v_status voter \<noteq> ''active''
                 then Error 403 VOTER_INACTIVE [(''status'', JStr (v_status voter))]
                 else Error 409 ALREADY_VOTED []), d)"
    by (simp add: submit_def withTransaction_def submitVote_txn_def)
next
  from voter usr show "issueToken configElectionId usr body now newId newTokenId newNonce d =
           (if \<not> isElectionOpen issueElectionId d
            then Failure 409 ELECTION_NOT_OPEN [(''electionId'', JStr issueElectionId)]
            else if v_status voter \<noteq> ''active''
            then Failure 403 VOTER_INACTIVE [(''status'', JStr (v_status voter))]
            else Failure 409 ALREADY_VOTED [], d)"
    by (simp add: issueToken_def Let_def electionId)
qed

text \<open>
  An active voter who has voted, with the election open and closed, and a blocked one.
\<close>

theorem voted_voter_rejected_witness:
  "findOne (\<lambda>v. v_voterId v = ''v1'') (voters (store3\<lparr>elections := []\<rparr>))
     = Some (voter1\<lparr>v_hasVoted := True\<rparr>)
   \<and> v_hasVoted (voter1\<lparr>v_hasVoted := True\<rparr>)
   \<and> js_or (u_voterId user1) (u_sub user1) = Some ''v1'' \<and> ''v1'' \<noteq> []
   \<and> ''e1'' = resolveElectionId (ib_electionId issueBody1) None
   \<and> submit ''v1'' ''t1'' ''e1'' ''c1'' None 1000 ''sig'' (store3\<lparr>elections := []\<rparr>)
       = (Inl (Error 409 ALREADY_VOTED []), store3\<lparr>elections := []\<rparr>)
   \<and> issueToken None user1 issueBody1 1000 7 ''tok'' ''nn'' (store3\<lparr>elections := []\<rparr>)
       = (Failure 409 ALREADY_VOTED [], store3\<lparr>elections := []\<rparr>)
   \<and> issueToken None user1 issueBody1 1000 7 ''tok'' ''nn'' store3
       = (Failure 409 ELECTION_NOT_OPEN [(''electionId'', JStr ''e1'')], store3)
   \<and> submit ''v1'' ''t1'' ''e1'' ''c1'' None 1000 ''sig'' store4
       = (Inl (Error 403 VOTER_INACTIVE [(''status'', JStr ''blocked'')]), store4)
   \<and> issueToken None user1 issueBody1 1000 7 ''tok'' ''nn'' store4
       = (Failure 403 VOTER_INACTIVE [(''status'', JStr ''blocked'')], store4)"
proof -
  have usr: "js_or (u_voterId user1) (u_sub user1) = Some ''v1''" "''v1'' \<noteq> []"
    and el: "''e1'' = resolveElectionId (ib_electionId issueBody1) None"
    by (simp_all add: js_or_def resolveElectionId_def user1_def issueBody1_def)
  have v3: "findOne (\<lambda>v. v_voterId v = ''v1'') (voters (store3\<lparr>elections := []\<rparr>))
              = Some (voter1\<lparr>v_hasVoted := True\<rparr>)"
      "findOne (\<lambda>v. v_voterId v = ''v1'') (voters store3) = Some (voter1\<lparr>v_hasVoted := True\<rparr>)"
      "v_hasVoted (voter1\<lparr>v_hasVoted := True\<rparr>)"
      "v_status (voter1\<lparr>v_hasVoted := True\<rparr>) = ''active''"
    and v4: "findOne (\<lambda>v. v_voterId v = ''v1'') (voters store4) = Some blocked1"
      "v_hasVoted blocked1" "v_status blocked1 = ''blocked''"
    and gate: "isElectionOpen ''e1'' (store3\<lparr>elections := []\<rparr>)"
      "\<not> isElectionOpen ''e1'' store3" "isElectionOpen ''e1'' store4"
    by (simp_all add: findOne_def isElectionOpen_def example_defs store4_def blocked1_def)
  from voted_voter_rejected [OF v3(1,3) usr el, of "''t1''" "''e1''" "''c1''" None 1000 "''sig''"
         7 "''tok''" "''nn''"]
       voted_voter_rejected [OF v3(2,3) usr el, of "''t1''" "''e1''" "''c1''" None 1000 "''sig''"
         7 "''tok''" "''nn''"]
       voted_voter_rejected [OF v4(1,2) usr el, of "''t1''" "''e1''" "''c1''" None 1000 "''sig''"
         7 "''tok''" "''nn''"]
  show ?thesis
    using usr el v3 v4 gate by simp
qed

text \<open>
  A voter who has voted asks for a token after the election was closed: the answer is
  \<open>ELECTION_NOT_OPEN\<close>.
\<close>

theorem voted_voter_rejected_counterexample:
  "voters store3 = [voter1\<lparr>v_hasVoted := True\<rparr>]
   \<and> v_hasVoted (voter1\<lparr>v_hasVoted := True\<rparr>)
   \<and> issueToken None user1 issueBody1 1000 7 ''tok'' ''nn'' store3
       = (Failure 409 ELECTION_NOT_OPEN [(''electionId'', JStr ''e1'')], store3)
   \<and> ELECTION_NOT_OPEN \<noteq> ALREADY_VOTED"
  by (simp add: issue_defs findOne_def insertOne_def example_defs Let_def)


section \<open>Attempt windows\<close>






subsection \<open>Failed logins\<close>






subsection \<open>One-time-code requests\<close>








subsection \<open>Counting within a window\<close>






subsection \<open>The bound on one-time-code requests\<close>







end
